theory Spec2Isabelle
  imports Main "HOL-Library.Sublist" "HOL-Library.Char_ord" "HOL-Library.List_Lexorder"
begin

section \<open>Errors\<close>

text \<open>
  The exceptions that can leave the functions of \<^verbatim>\<open>server.py\<close>.
  \<open>DataError\<close> is the store's refusal of a value that a statement carries;
  \<open>OperationalError\<close> stands for a failure of the store that the values do not decide
  (lost connection, lock timeout); \<open>HTTPException\<close> carries its status code.
\<close>

datatype error =
    RuntimeError
  | ValueError
  | TypeError
  | IntegrityError
  | DataError
  | OperationalError
  | HTTPException nat

definition and_then :: "error + 'a \<Rightarrow> ('a \<Rightarrow> error + 'b) \<Rightarrow> error + 'b" where
  "and_then r k = (case r of Inl e \<Rightarrow> Inl e | Inr v \<Rightarrow> k v)"

section \<open>Rendering integers\<close>

text \<open>
  \<open>py_str\<close> is Python's \<^verbatim>\<open>str(n)\<close> on an \<^verbatim>\<open>int\<close>: the decimal digits, with a
  leading minus sign for a negative number.
\<close>

definition digit_char :: "nat \<Rightarrow> char" where
  "digit_char d = ''0123456789'' ! d"

fun digits :: "nat \<Rightarrow> string" where
  "digits n = (if n < 10 then [digit_char n] else digits (n div 10) @ [digit_char (n mod 10)])"

declare digits.simps [simp del]

definition py_str :: "int \<Rightarrow> string" where
  "py_str n = (if n < 0 then CHR ''-'' # digits (nat (- n)) else digits (nat n))"

text \<open>
  \<open>py_format_0d n w\<close> is \<^verbatim>\<open>f"{n:0{w}d}"\<close>: the format specification is the text
  \<^verbatim>\<open>"0" + str(w) + "d"\<close>. For \<open>w \<ge> 0\<close> it is the zero flag followed by the width
  \<open>w\<close>: the sign comes first and zeros fill the width. For \<open>w < 0\<close> the
  specification reads \<^verbatim>\<open>"0-3d"\<close>, which Python rejects with \<^verbatim>\<open>ValueError\<close>
  (invalid format specifier).
\<close>

definition py_format_0d :: "int \<Rightarrow> int \<Rightarrow> error + string" where
  "py_format_0d n w =
     (if w < 0 then Inl ValueError
      else let sign = (if n < 0 then ''-'' else '''');
               ds = digits (nat \<bar>n\<bar>)
           in Inr (sign @ replicate (nat w - length sign - length ds) CHR ''0'' @ ds))"

text \<open>
  \<^verbatim>\<open>formatted_number\<close> (lines 112-117). The test \<^verbatim>\<open>if padding and next_val >= 0\<close>
  takes the padded branch for every non-zero \<open>padding\<close>, negative ones included.
\<close>

definition formatted_number :: "int \<Rightarrow> string \<Rightarrow> int \<Rightarrow> error + string" where
  "formatted_number next_val pre padding =
     and_then
       (if padding \<noteq> 0 \<and> next_val \<ge> 0 then py_format_0d next_val padding
        else Inr (py_str next_val))
       (\<lambda>num. Inr (pre @ num))"

section \<open>The counters table\<close>

text \<open>
  A row of table \<^verbatim>\<open>counters\<close> (class \<^verbatim>\<open>Counter\<close>, lines 34-39); the table is the
  list of its rows. Column \<^verbatim>\<open>type\<close> is the primary key.

  Columns \<^verbatim>\<open>next\<close> and \<^verbatim>\<open>padding\<close> are \<^verbatim>\<open>Column(Integer)\<close>, the store's 32-bit
  integer, while the program computes with Python's integers, which have no bound: the
  store refuses an integer outside the 32-bit range (\<open>int4_ok\<close>). Columns
  \<^verbatim>\<open>type\<close> and \<^verbatim>\<open>prefix\<close> are \<^verbatim>\<open>Column(String)\<close>: the store refuses a text that
  contains the NUL character (\<open>text_ok\<close>). A string is the list of the bytes of its
  UTF-8 encoding.
\<close>

definition int4_ok :: "int \<Rightarrow> bool" where
  "int4_ok n = (- 2147483648 \<le> n \<and> n \<le> 2147483647)"

definition text_ok :: "string \<Rightarrow> bool" where
  "text_ok s = (CHR 0x00 \<notin> set s)"

record counter_row =
  type_col :: string
  next_col :: int
  prefix_col :: string
  padding_col :: int

type_synonym counters = "counter_row list"

text \<open>\<^verbatim>\<open>SELECT type, next, prefix, padding FROM counters WHERE type=:t\<close>, \<^verbatim>\<open>fetchone()\<close>.\<close>

definition select_counter :: "counters \<Rightarrow> string \<Rightarrow> counter_row option" where
  "select_counter tbl t = find (\<lambda>r. type_col r = t) tbl"

text \<open>
  \<^verbatim>\<open>INSERT INTO counters(type,next,prefix,padding) VALUES (...)\<close>: a second row with
  the same primary key is refused.
\<close>

definition insert_counter :: "counters \<Rightarrow> counter_row \<Rightarrow> error + counters" where
  "insert_counter tbl r =
     (case select_counter tbl (type_col r) of
        None \<Rightarrow> Inr (tbl @ [r])
      | Some _ \<Rightarrow> Inl IntegrityError)"

text \<open>\<^verbatim>\<open>UPDATE counters SET next=:n WHERE type=:t\<close>.\<close>

definition update_next :: "counters \<Rightarrow> string \<Rightarrow> int \<Rightarrow> counters" where
  "update_next tbl t n = map (\<lambda>r. if type_col r = t then r\<lparr>next_col := n\<rparr> else r) tbl"

text \<open>
  \<^verbatim>\<open>INSERT ... ON CONFLICT (type) DO UPDATE SET next=EXCLUDED.next,
  prefix=EXCLUDED.prefix, padding=EXCLUDED.padding\<close>.
\<close>

definition upsert_counter :: "counters \<Rightarrow> counter_row \<Rightarrow> counters" where
  "upsert_counter tbl new =
     (case select_counter tbl (type_col new) of
        None \<Rightarrow> tbl @ [new]
      | Some _ \<Rightarrow>
          map (\<lambda>r. if type_col r = type_col new
                   then r\<lparr>next_col := next_col new, prefix_col := prefix_col new,
                          padding_col := padding_col new\<rparr>
                   else r) tbl)"

section \<open>Sessions\<close>

text \<open>
  Each endpoint runs inside \<^verbatim>\<open>with SessionLocal() as db\<close>: its statements work on
  the session's transaction, \<^verbatim>\<open>db.commit()\<close> makes the transaction's table the
  stored one, and leaving the block by an exception closes the session, which discards
  the transaction. An endpoint is therefore a function from the stored table to a
  response and the stored table afterwards.

  \<open>execute fault s accepted r\<close> is \<^verbatim>\<open>db.execute\<close> of statement \<open>s\<close>, whose effect
  is \<open>r\<close>. The statement raises \<^verbatim>\<open>DataError\<close> when the store does not accept the
  values it carries; \<open>accepted\<close> is computed from those values at each call.
  Whether the store fails for another reason is not decided by the program. It is a
  parameter of the model: \<open>fault = Some s\<close> makes statement \<open>s\<close> raise
  \<^verbatim>\<open>OperationalError\<close> when it is executed, \<open>fault = None\<close> does not.
\<close>

datatype stmt = Begin | Select | Insert | Update | Upsert | Commit

definition execute :: "stmt option \<Rightarrow> stmt \<Rightarrow> bool \<Rightarrow> error + 'a \<Rightarrow> error + 'a" where
  "execute fault s accepted r =
     (if fault = Some s then Inl OperationalError
      else if \<not> accepted then Inl DataError
      else r)"

definition close_session :: "'t \<Rightarrow> error + ('a \<times> 't) \<Rightarrow> (error + 'a) \<times> 't" where
  "close_session stored r =
     (case r of Inl e \<Rightarrow> (Inl e, stored) | Inr (v, committed) \<Rightarrow> (Inr v, committed))"

section \<open>The allocator\<close>

text \<open>
  Lines 125-130 of \<^verbatim>\<open>take_next_number\<close>: read the row, or insert the default row
  and continue with \<^verbatim>\<open>1, "", 0\<close>. Both statements carry \<open>doc_type\<close>.
\<close>

definition read_or_create ::
  "stmt option \<Rightarrow> counters \<Rightarrow> string \<Rightarrow> error + (counters \<times> int \<times> string \<times> int)" where
  "read_or_create fault tx doc_type =
     and_then (execute fault Select (text_ok doc_type) (Inr (select_counter tx doc_type)))
       (\<lambda>row. case row of
          None \<Rightarrow>
            and_then
              (execute fault Insert (text_ok doc_type)
                 (insert_counter tx
                    \<lparr>type_col = doc_type, next_col = 1, prefix_col = '''', padding_col = 0\<rparr>))
              (\<lambda>tx1. Inr (tx1, 1, '''', 0))
        | Some r \<Rightarrow> Inr (tx, next_col r, prefix_col r, padding_col r))"

text \<open>
  The body of the \<^verbatim>\<open>with\<close> block of \<^verbatim>\<open>take_next_number\<close> (lines 124-134). The
  update carries \<^verbatim>\<open>next_val + 1\<close> for column \<^verbatim>\<open>next\<close>, and \<open>doc_type\<close>.
\<close>

definition take_next_number_tx ::
  "stmt option \<Rightarrow> counters \<Rightarrow> string \<Rightarrow> error + (string \<times> counters)" where
  "take_next_number_tx fault tx doc_type =
     and_then (execute fault Begin True (Inr tx))
       (\<lambda>tx0. and_then (read_or_create fault tx0 doc_type)
       (\<lambda>(tx1, next_val, pre, padding).
          and_then (formatted_number next_val pre padding)
       (\<lambda>formatted.
          and_then (execute fault Update (int4_ok (next_val + 1) \<and> text_ok doc_type)
                      (Inr (update_next tx1 doc_type (next_val + 1))))
       (\<lambda>tx2. and_then (execute fault Commit True (Inr tx2))
       (\<lambda>committed. Inr (formatted, committed))))))"

definition take_next_number ::
  "stmt option \<Rightarrow> counters \<Rightarrow> string \<Rightarrow> (error + string) \<times> counters" where
  "take_next_number fault tbl doc_type =
     close_session tbl (take_next_number_tx fault tbl doc_type)"

text \<open>
  \<^verbatim>\<open>list_counters\<close> (lines 136-140): the rows ordered by \<^verbatim>\<open>type\<close>; the stored table
  is only read.
\<close>

definition list_counters :: "counters \<Rightarrow> counter_row list \<times> counters" where
  "list_counters tbl = (sort_key type_col tbl, tbl)"

text \<open>
  \<^verbatim>\<open>set_counter\<close> (lines 142-150). \<open>counter_in\<close> is the body \<^verbatim>\<open>CounterIn\<close>, whose
  \<^verbatim>\<open>next\<close> and \<^verbatim>\<open>padding\<close> are any \<^verbatim>\<open>int\<close>; \<open>counter_in_ok\<close> says that the
  columns hold its values. The statement carries \<open>doc_type\<close> and the three fields; the
  response repeats the arguments.
\<close>

record counter_in =
  next_in :: int
  prefix_in :: string
  padding_in :: int

definition counter_in_ok :: "counter_in \<Rightarrow> bool" where
  "counter_in_ok c = (int4_ok (next_in c) \<and> text_ok (prefix_in c) \<and> int4_ok (padding_in c))"

definition set_counter ::
  "stmt option \<Rightarrow> counters \<Rightarrow> string \<Rightarrow> counter_in \<Rightarrow> (error + counter_row) \<times> counters" where
  "set_counter fault tbl doc_type c =
     (let new = \<lparr>type_col = doc_type, next_col = next_in c, prefix_col = prefix_in c,
                 padding_col = padding_in c\<rparr>
      in close_session tbl
           (and_then (execute fault Upsert (text_ok doc_type \<and> counter_in_ok c)
                        (Inr (upsert_counter tbl new)))
              (\<lambda>tx1. and_then (execute fault Commit True (Inr tx1))
              (\<lambda>committed. Inr (new, committed)))))"

section \<open>The spec's padding function\<close>

text \<open>
  \<open>spec_zero_pad\<close> is \<^verbatim>\<open>zero_pad(n, p)\<close> in the words of the specification, kept
  apart from the code for comparison with \<open>formatted_number\<close>: the decimal rendering
  of \<open>n\<close>, left-padded with \<^verbatim>\<open>'0'\<close> to width \<open>p\<close> when \<open>p > 0\<close> and \<open>n \<ge> 0\<close>,
  and with no padding otherwise.
\<close>

definition spec_zero_pad :: "int \<Rightarrow> int \<Rightarrow> string" where
  "spec_zero_pad n p =
     (if p > 0 \<and> n \<ge> 0 then replicate (nat p - length (py_str n)) CHR ''0'' @ py_str n
      else py_str n)"

section \<open>Sequences of requests on the counters\<close>

text \<open>
  The three endpoints on table \<^verbatim>\<open>counters\<close>, as requests served one after the
  other; \<open>serve\<close> gives the stored table after a request.
\<close>

datatype request =
    Allocate "stmt option" string
  | Configure "stmt option" string counter_in
  | ListCounters

fun serve :: "counters \<Rightarrow> request \<Rightarrow> counters" where
  "serve tbl (Allocate fault t) = snd (take_next_number fault tbl t)"
| "serve tbl (Configure fault t c) = snd (set_counter fault tbl t c)"
| "serve tbl ListCounters = snd (list_counters tbl)"

definition serve_all :: "counters \<Rightarrow> request list \<Rightarrow> counters" where
  "serve_all tbl reqs = foldl serve tbl reqs"

fun configures :: "string \<Rightarrow> request \<Rightarrow> bool" where
  "configures t (Configure fault t' c) = (t' = t)"
| "configures t _ = False"

definition next_of :: "counters \<Rightarrow> string \<Rightarrow> int option" where
  "next_of tbl t = map_option next_col (select_counter tbl t)"

text \<open>
  \<open>nondecreasing tbl tbl' t\<close>: a counter \<open>t\<close> stored in \<open>tbl\<close> is still stored in
  \<open>tbl'\<close>, with a \<^verbatim>\<open>next\<close> that is not smaller.
\<close>

definition nondecreasing :: "counters \<Rightarrow> counters \<Rightarrow> string \<Rightarrow> bool" where
  "nondecreasing tbl tbl' t =
     (case next_of tbl t of
        None \<Rightarrow> True
      | Some n \<Rightarrow> (case next_of tbl' t of None \<Rightarrow> False | Some n' \<Rightarrow> n \<le> n'))"


section \<open>Database URL normalisation\<close>

text \<open>
  \<^verbatim>\<open>str.replace(old, new, 1)\<close>: the leftmost occurrence of \<open>old\<close> is replaced.
\<close>

fun replace_first :: "string \<Rightarrow> string \<Rightarrow> string \<Rightarrow> string" where
  "replace_first old new [] = (if old = [] then new else [])"
| "replace_first old new (c # cs) =
     (if prefix old (c # cs) then new @ drop (length old) (c # cs)
      else c # replace_first old new cs)"

text \<open>
  Lines 14-27. The argument is the value of \<^verbatim>\<open>os.getenv("DATABASE_URL", "")\<close>;
  Python's \<^verbatim>\<open>x in s\<close> on strings is \<open>sublist x s\<close> and \<^verbatim>\<open>s.startswith(p)\<close> is
  \<open>prefix p s\<close>.
\<close>

definition force_ssl :: "string \<Rightarrow> string" where
  "force_ssl raw_url =
     (if \<not> sublist ''sslmode='' raw_url
      then (let sep = (if sublist ''?'' raw_url then ''&'' else ''?'')
            in raw_url @ sep @ ''sslmode=require'')
      else raw_url)"

definition use_psycopg :: "string \<Rightarrow> string" where
  "use_psycopg raw_url =
     (if prefix ''postgresql://'' raw_url
      then replace_first ''postgresql://'' ''postgresql+psycopg://'' raw_url
      else raw_url)"

definition database_url :: "string \<Rightarrow> error + string" where
  "database_url raw_url =
     (if raw_url = '''' then Inl RuntimeError
      else Inr (use_psycopg (force_ssl raw_url)))"

section \<open>Clients\<close>

text \<open>
  A row of table \<^verbatim>\<open>clients\<close> (lines 41-48): \<^verbatim>\<open>address\<close>, \<^verbatim>\<open>email\<close> and
  \<^verbatim>\<open>phone\<close> are nullable, \<open>None\<close> is SQL's \<^verbatim>\<open>NULL\<close>. The store holds the rows and
  the sequence that numbers them.
\<close>

record client_row =
  id_col :: int
  name_col :: string
  address_col :: "string option"
  email_col :: "string option"
  phone_col :: "string option"

record clients =
  rows :: "client_row list"
  id_seq :: int

text \<open>\<^verbatim>\<open>ClientIn\<close> and \<^verbatim>\<open>ClientOut\<close> (lines 80-87); an \<^verbatim>\<open>Optional[str]\<close> may be \<^verbatim>\<open>None\<close>.\<close>

record client_in =
  name_in :: string
  address_in :: "string option"
  email_in :: "string option"
  phone_in :: "string option"

record client_out =
  id_out :: int
  name_out :: string
  address_out :: string
  email_out :: string
  phone_out :: string

text \<open>\<^verbatim>\<open>x or ""\<close> on an optional string.\<close>

definition or_empty :: "string option \<Rightarrow> string" where
  "or_empty x = (case x of None \<Rightarrow> '''' | Some s \<Rightarrow> s)"

text \<open>
  SQL's \<^verbatim>\<open>a = b\<close> in a \<^verbatim>\<open>WHERE\<close> clause: a comparison with \<^verbatim>\<open>NULL\<close> is not true.
\<close>

definition sql_eq :: "string option \<Rightarrow> string option \<Rightarrow> bool" where
  "sql_eq a b =
     (case a of None \<Rightarrow> False | Some x \<Rightarrow> (case b of None \<Rightarrow> False | Some y \<Rightarrow> x = y))"

text \<open>\<^verbatim>\<open>SELECT id FROM clients WHERE name=:n AND email=:e\<close>, \<^verbatim>\<open>fetchone()\<close>.\<close>

definition select_client_id :: "client_row list \<Rightarrow> string \<Rightarrow> string option \<Rightarrow> int option" where
  "select_client_id rs n e =
     map_option id_col (find (\<lambda>r. name_col r = n \<and> sql_eq (email_col r) e) rs)"

text \<open>\<^verbatim>\<open>UPDATE clients SET address=:a, phone=:ph WHERE id=:id\<close>.\<close>

definition update_client :: "client_row list \<Rightarrow> int \<Rightarrow> string \<Rightarrow> string \<Rightarrow> client_row list" where
  "update_client rs cid a ph =
     map (\<lambda>r. if id_col r = cid then r\<lparr>address_col := Some a, phone_col := Some ph\<rparr> else r) rs"

text \<open>
  \<^verbatim>\<open>INSERT INTO clients(name,address,email,phone) VALUES (...) RETURNING id\<close>: the id
  is drawn from the sequence, and constraint \<^verbatim>\<open>uq_clients_name_email\<close> refuses a row
  whose name and email equal those of a stored row. The sequence keeps its advance
  when the row is refused.
\<close>

definition insert_client ::
  "clients \<Rightarrow> string \<Rightarrow> string \<Rightarrow> string \<Rightarrow> string \<Rightarrow> (error + int) \<times> clients" where
  "insert_client db n a e ph =
     (let new = \<lparr>id_col = id_seq db, name_col = n, address_col = Some a,
                 email_col = Some e, phone_col = Some ph\<rparr>;
          db1 = db\<lparr>id_seq := id_seq db + 1\<rparr>
      in case select_client_id (rows db) n (Some e) of
           Some _ \<Rightarrow> (Inl IntegrityError, db1)
         | None \<Rightarrow> (Inr (id_col new), db1\<lparr>rows := rows db @ [new]\<rparr>))"

text \<open>\<^verbatim>\<open>SELECT id,name,address,email,phone FROM clients WHERE id=:i\<close> and line 176.\<close>

definition fetch_client :: "client_row list \<Rightarrow> int \<Rightarrow> error + client_out" where
  "fetch_client rs cid =
     (case find (\<lambda>r. id_col r = cid) rs of
        None \<Rightarrow> Inl TypeError
      | Some newrow \<Rightarrow>
          Inr \<lparr>id_out = id_col newrow, name_out = name_col newrow,
               address_out = or_empty (address_col newrow),
               email_out = or_empty (email_col newrow),
               phone_out = or_empty (phone_col newrow)\<rparr>)"

text \<open>The \<^verbatim>\<open>try\<close> block of \<^verbatim>\<open>upsert_client\<close> (lines 162-176).\<close>

definition upsert_client_try :: "client_in \<Rightarrow> clients \<Rightarrow> (error + client_out) \<times> clients" where
  "upsert_client_try c db =
     (case select_client_id (rows db) (name_in c) (email_in c) of
        Some row_id \<Rightarrow>
          (let db1 = db\<lparr>rows := update_client (rows db) row_id
                                   (or_empty (address_in c)) (or_empty (phone_in c))\<rparr>
           in (fetch_client (rows db1) row_id, db1))
      | None \<Rightarrow>
          (case insert_client db (name_in c) (or_empty (address_in c))
                  (or_empty (email_in c)) (or_empty (phone_in c)) of
             (Inl e, db1) \<Rightarrow> (Inl e, db1)
           | (Inr cid, db1) \<Rightarrow> (fetch_client (rows db1) cid, db1)))"

text \<open>
  \<^verbatim>\<open>upsert_client\<close> (lines 158-179): an \<^verbatim>\<open>IntegrityError\<close> is answered with
  \<^verbatim>\<open>HTTPException(400, ...)\<close>; nothing is tried again.
\<close>

definition upsert_client :: "client_in \<Rightarrow> clients \<Rightarrow> (error + client_out) \<times> clients" where
  "upsert_client c db =
     (case upsert_client_try c db of
        (Inl IntegrityError, db1) \<Rightarrow> (Inl (HTTPException 400), db1)
      | res \<Rightarrow> res)"

section \<open>Formatting: the code against the spec's function\<close>

lemma formatted_number_nonneg_padding:
  "0 \<le> padding \<Longrightarrow> formatted_number n pre padding = Inr (pre @ spec_zero_pad n padding)"
  by (simp add: formatted_number_def and_then_def py_format_0d_def spec_zero_pad_def py_str_def Let_def)

lemma formatted_number_neg_value:
  "n < 0 \<Longrightarrow> formatted_number n pre padding = Inr (pre @ spec_zero_pad n padding)"
  by (simp add: formatted_number_def and_then_def spec_zero_pad_def)

lemma formatted_number_neg_padding:
  "padding < 0 \<Longrightarrow> 0 \<le> n \<Longrightarrow> formatted_number n pre padding = Inl ValueError"
  by (simp add: formatted_number_def and_then_def py_format_0d_def)

lemma formatted_number_Inr:
  "formatted_number n pre padding = Inr out \<Longrightarrow> out = pre @ spec_zero_pad n padding"
  by (cases "0 \<le> padding"; cases "0 \<le> n")
     (simp_all add: formatted_number_nonneg_padding formatted_number_neg_value
        formatted_number_neg_padding)

text \<open>The examples of the specification.\<close>

lemma formatted_number_examples:
  "formatted_number 7 '''' 4 = Inr ''0007''"
  "formatted_number 7 '''' 0 = Inr ''7''"
  "formatted_number (- 1) '''' 4 = Inr ''-1''"
  by code_simp+

section \<open>Statements on the counters table\<close>

lemma select_counter_update_next:
  "select_counter (update_next tbl t n) t' =
     (if t' = t then map_option (\<lambda>r. r\<lparr>next_col := n\<rparr>) (select_counter tbl t)
      else select_counter tbl t')"
  by (induction tbl) (auto simp: select_counter_def update_next_def)

lemma select_counter_append:
  "select_counter (tbl @ [r]) t =
     (case select_counter tbl t of
        Some x \<Rightarrow> Some x
      | None \<Rightarrow> if type_col r = t then Some r else None)"
  by (induction tbl) (auto simp: select_counter_def)

lemma select_counter_upsert:
  "select_counter (upsert_counter tbl new) t =
     (if t = type_col new then Some new else select_counter tbl t)"
proof -
  have upd: "select_counter (map (\<lambda>r. if type_col r = type_col new
                   then r\<lparr>next_col := next_col new, prefix_col := prefix_col new,
                          padding_col := padding_col new\<rparr>
                   else r) tbl) t =
      (if t = type_col new then map_option (\<lambda>r. new) (select_counter tbl t) else select_counter tbl t)"
    by (induction tbl) (auto simp: select_counter_def)
  show ?thesis
    by (cases "select_counter tbl (type_col new)")
       (auto simp: upsert_counter_def select_counter_append upd split: option.splits)
qed

lemma tx_existing:
  assumes "select_counter tbl t = Some r"
  shows "take_next_number_tx fault tbl t =
     (if fault = Some Begin \<or> fault = Some Select then Inl OperationalError
      else if \<not> text_ok t then Inl DataError
      else case formatted_number (next_col r) (prefix_col r) (padding_col r) of
        Inl e \<Rightarrow> Inl e
      | Inr out \<Rightarrow>
          if fault = Some Update then Inl OperationalError
          else if \<not> int4_ok (next_col r + 1) then Inl DataError
          else if fault = Some Commit then Inl OperationalError
          else Inr (out, update_next tbl t (next_col r + 1)))"
  using assms
  by (auto simp: take_next_number_tx_def read_or_create_def and_then_def execute_def
           split: sum.splits)

lemma formatted_default: "formatted_number 1 '''' 0 = Inr ''1''"
  by code_simp

lemma tx_absent:
  assumes "select_counter tbl t = None"
  shows "take_next_number_tx fault tbl t =
     (if fault = Some Begin \<or> fault = Some Select then Inl OperationalError
      else if \<not> text_ok t then Inl DataError
      else if fault = Some Insert \<or> fault = Some Update \<or> fault = Some Commit
      then Inl OperationalError
      else Inr (''1'', update_next
                  (tbl @ [\<lparr>type_col = t, next_col = 1, prefix_col = '''', padding_col = 0\<rparr>]) t 2))"
  using assms
  by (auto simp: take_next_number_tx_def read_or_create_def and_then_def execute_def
           insert_counter_def formatted_default int4_ok_def
           split: sum.splits)

section \<open>The allocator, case by case\<close>

lemma take_next_number_existing:
  assumes "select_counter tbl t = Some r"
  shows "take_next_number fault tbl t =
     (if fault = Some Begin \<or> fault = Some Select then (Inl OperationalError, tbl)
      else if \<not> text_ok t then (Inl DataError, tbl)
      else case formatted_number (next_col r) (prefix_col r) (padding_col r) of
        Inl e \<Rightarrow> (Inl e, tbl)
      | Inr out \<Rightarrow>
          if fault = Some Update then (Inl OperationalError, tbl)
          else if \<not> int4_ok (next_col r + 1) then (Inl DataError, tbl)
          else if fault = Some Commit then (Inl OperationalError, tbl)
          else (Inr out, update_next tbl t (next_col r + 1)))"
  by (simp add: take_next_number_def close_session_def tx_existing [OF assms] split: sum.splits)

lemma take_next_number_absent:
  assumes "select_counter tbl t = None"
  shows "take_next_number fault tbl t =
     (if fault = Some Begin \<or> fault = Some Select then (Inl OperationalError, tbl)
      else if \<not> text_ok t then (Inl DataError, tbl)
      else if fault = Some Insert \<or> fault = Some Update \<or> fault = Some Commit
      then (Inl OperationalError, tbl)
      else (Inr ''1'', update_next
                  (tbl @ [\<lparr>type_col = t, next_col = 1, prefix_col = '''', padding_col = 0\<rparr>]) t 2))"
  by (simp add: take_next_number_def close_session_def tx_absent [OF assms])

lemma select_counter_created:
  assumes "select_counter tbl t = None"
  shows "select_counter (update_next
            (tbl @ [\<lparr>type_col = t, next_col = 1, prefix_col = '''', padding_col = 0\<rparr>]) t 2) t' =
         (if t' = t then Some \<lparr>type_col = t, next_col = 2, prefix_col = '''', padding_col = 0\<rparr>
          else select_counter tbl t')"
  using assms by (auto simp: select_counter_update_next select_counter_append split: option.splits)

lemma take_next_number_failed:
  assumes "take_next_number fault tbl t = (Inl e, tbl')"
  shows "tbl' = tbl"
proof (cases "select_counter tbl t")
  case None
  from assms show ?thesis
    unfolding take_next_number_absent [OF None] by (simp split: if_splits)
next
  case (Some r)
  from assms show ?thesis
    unfolding take_next_number_existing [OF Some] by (simp split: if_splits sum.splits)
qed

lemma take_next_number_success_no_fault:
  assumes "take_next_number fault tbl t = (Inr out, tbl')"
  shows "take_next_number None tbl t = (Inr out, tbl')"
proof (cases "select_counter tbl t")
  case None
  from assms show ?thesis
    unfolding take_next_number_absent [OF None] by (simp split: if_splits)
next
  case (Some r)
  from assms show ?thesis
    unfolding take_next_number_existing [OF Some] by (simp split: if_splits sum.splits)
qed


section \<open>Allocation from a stored counter\<close>

text \<open>
  C1. When the counter of \<open>t\<close> is stored with \<^verbatim>\<open>next\<close> \<open>n\<close>, \<^verbatim>\<open>prefix\<close> \<open>p\<close> and
  \<^verbatim>\<open>padding\<close> \<open>w\<close>, an allocation that succeeds returns \<open>p\<close> followed by the spec's
  \<open>zero_pad n w\<close>, both read before the call, and the stored row afterwards is the
  same row with \<^verbatim>\<open>next\<close> \<open>n + 1\<close>. Such an allocation does succeed whenever no
  store failure interrupts it, the padding is not negative, and the store accepts the
  key and \<open>n + 1\<close>.
\<close>

theorem allocate_existing_counter:
  assumes "select_counter tbl t = Some r"
  shows "(take_next_number fault tbl t = (Inr out, tbl') \<longrightarrow>
            out = prefix_col r @ spec_zero_pad (next_col r) (padding_col r) \<and>
            select_counter tbl' t = Some (r\<lparr>next_col := next_col r + 1\<rparr>)) \<and>
         (0 \<le> padding_col r \<and> text_ok t \<and> int4_ok (next_col r + 1) \<longrightarrow>
            fst (take_next_number None tbl t) =
              Inr (prefix_col r @ spec_zero_pad (next_col r) (padding_col r)))"
proof -
  have "out = prefix_col r @ spec_zero_pad (next_col r) (padding_col r) \<and>
        select_counter tbl' t = Some (r\<lparr>next_col := next_col r + 1\<rparr>)"
    if run: "take_next_number fault tbl t = (Inr out, tbl')"
  proof -
    from run have fmt: "formatted_number (next_col r) (prefix_col r) (padding_col r) = Inr out"
      and tbl': "tbl' = update_next tbl t (next_col r + 1)"
      unfolding take_next_number_existing [OF assms] by (simp_all split: if_splits sum.splits)
    from fmt have "out = prefix_col r @ spec_zero_pad (next_col r) (padding_col r)"
      by (rule formatted_number_Inr)
    moreover have "select_counter tbl' t = Some (r\<lparr>next_col := next_col r + 1\<rparr>)"
      by (simp add: tbl' select_counter_update_next assms)
    ultimately show ?thesis by simp
  qed
  moreover have "fst (take_next_number None tbl t) =
      Inr (prefix_col r @ spec_zero_pad (next_col r) (padding_col r))"
    if "0 \<le> padding_col r \<and> text_ok t \<and> int4_ok (next_col r + 1)"
    using that
    by (simp add: take_next_number_existing [OF assms] formatted_number_nonneg_padding)
  ultimately show ?thesis by blast
qed

theorem allocate_existing_counter_witness:
  "select_counter (snd (set_counter None [] ''invoice''
       \<lparr>next_in = 100, prefix_in = ''INV-'', padding_in = 5\<rparr>)) ''invoice'' =
     Some \<lparr>type_col = ''invoice'', next_col = 100, prefix_col = ''INV-'', padding_col = 5\<rparr> \<and>
   take_next_number None (snd (set_counter None [] ''invoice''
       \<lparr>next_in = 100, prefix_in = ''INV-'', padding_in = 5\<rparr>)) ''invoice'' =
     (Inr ''INV-00100'',
      [\<lparr>type_col = ''invoice'', next_col = 101, prefix_col = ''INV-'', padding_col = 5\<rparr>]) \<and>
   ''INV-00100'' = ''INV-'' @ spec_zero_pad 100 5 \<and>
   select_counter
      [\<lparr>type_col = ''invoice'', next_col = 101, prefix_col = ''INV-'', padding_col = 5\<rparr>]
      ''invoice'' =
     Some \<lparr>type_col = ''invoice'', next_col = 101, prefix_col = ''INV-'', padding_col = 5\<rparr> \<and>
   (0::int) \<le> 5 \<and> text_ok ''invoice'' \<and> int4_ok (100 + 1) \<and>
   fst (take_next_number None (snd (set_counter None [] ''invoice''
       \<lparr>next_in = 100, prefix_in = ''INV-'', padding_in = 5\<rparr>)) ''invoice'') =
     Inr (''INV-'' @ spec_zero_pad 100 5)"
proof -
  have h1: "select_counter (snd (set_counter None [] ''invoice''
       \<lparr>next_in = 100, prefix_in = ''INV-'', padding_in = 5\<rparr>)) ''invoice'' =
     Some \<lparr>type_col = ''invoice'', next_col = 100, prefix_col = ''INV-'', padding_col = 5\<rparr>"
    by code_simp
  have h2: "take_next_number None (snd (set_counter None [] ''invoice''
       \<lparr>next_in = 100, prefix_in = ''INV-'', padding_in = 5\<rparr>)) ''invoice'' =
     (Inr ''INV-00100'',
      [\<lparr>type_col = ''invoice'', next_col = 101, prefix_col = ''INV-'', padding_col = 5\<rparr>])"
    by code_simp
  have h3: "text_ok ''invoice''" by (simp add: text_ok_def)
  have h4: "int4_ok (100 + 1)" by (simp add: int4_ok_def)
  from allocate_existing_counter [OF h1, of None "''INV-00100''"
      "[\<lparr>type_col = ''invoice'', next_col = 101, prefix_col = ''INV-'', padding_col = 5\<rparr>]"]
    h1 h2 h3 h4
  show ?thesis by simp
qed

section \<open>Allocation for a new document type\<close>



section \<open>Negative padding\<close>

text \<open>
  C3. The spec's \<open>zero_pad\<close> renders 7 with padding \<open>-3\<close> as \<^verbatim>\<open>"7"\<close>. The code takes
  the padded branch there, builds the format specification \<^verbatim>\<open>"0-3d"\<close> and raises
  \<^verbatim>\<open>ValueError\<close>. (For padding \<open>\<ge> 0\<close>, and for negative numbers, code and spec agree:
  \<open>formatted_number_nonneg_padding\<close>, \<open>formatted_number_neg_value\<close>.)
\<close>
theorem formatted_number_negative_padding:
  "formatted_number 7 '''' (- 3) = Inl ValueError \<and> spec_zero_pad 7 (- 3) = ''7''"
  by code_simp

section \<open>Failed allocations\<close>

text \<open>
  C5. If an allocation fails, at whichever statement, the stored table is the one
  before the call, so the counter's \<^verbatim>\<open>next\<close> is unchanged; and every later allocation
  for the same type that succeeds returns the number that the failed call would have
  returned, that is, the number of the undisturbed call on the table before the
  failure.
\<close>
theorem failed_allocate_rolls_back:
  assumes "take_next_number fault tbl t = (Inl e, tbl')"
  shows "tbl' = tbl \<and> next_of tbl' t = next_of tbl t \<and>
         (\<forall>fault' out tbl''.
            take_next_number fault' tbl' t = (Inr out, tbl'') \<longrightarrow>
            fst (take_next_number None tbl t) = Inr out)"
proof -
  have same: "tbl' = tbl" using assms by (rule take_next_number_failed)
  have "fst (take_next_number None tbl t) = Inr out"
    if "take_next_number fault' tbl' t = (Inr out, tbl'')" for fault' out tbl''
    using take_next_number_success_no_fault [OF that] by (simp add: same)
  with same show ?thesis by blast
qed

theorem failed_allocate_rolls_back_witness:
  "take_next_number (Some Update)
      [\<lparr>type_col = ''invoice'', next_col = 100, prefix_col = ''INV-'', padding_col = 5\<rparr>]
      ''invoice'' =
     (Inl OperationalError,
      [\<lparr>type_col = ''invoice'', next_col = 100, prefix_col = ''INV-'', padding_col = 5\<rparr>]) \<and>
   next_of [\<lparr>type_col = ''invoice'', next_col = 100, prefix_col = ''INV-'', padding_col = 5\<rparr>]
      ''invoice'' = Some 100 \<and>
   take_next_number None
      [\<lparr>type_col = ''invoice'', next_col = 100, prefix_col = ''INV-'', padding_col = 5\<rparr>]
      ''invoice'' =
     (Inr ''INV-00100'',
      [\<lparr>type_col = ''invoice'', next_col = 101, prefix_col = ''INV-'', padding_col = 5\<rparr>]) \<and>
   fst (take_next_number None
      [\<lparr>type_col = ''invoice'', next_col = 100, prefix_col = ''INV-'', padding_col = 5\<rparr>]
      ''invoice'') = Inr ''INV-00100''"
proof -
  have h1: "take_next_number (Some Update)
      [\<lparr>type_col = ''invoice'', next_col = 100, prefix_col = ''INV-'', padding_col = 5\<rparr>]
      ''invoice'' =
     (Inl OperationalError,
      [\<lparr>type_col = ''invoice'', next_col = 100, prefix_col = ''INV-'', padding_col = 5\<rparr>])"
    by code_simp
  have h2: "take_next_number None
      [\<lparr>type_col = ''invoice'', next_col = 100, prefix_col = ''INV-'', padding_col = 5\<rparr>]
      ''invoice'' =
     (Inr ''INV-00100'',
      [\<lparr>type_col = ''invoice'', next_col = 101, prefix_col = ''INV-'', padding_col = 5\<rparr>])"
    by code_simp
  have h3: "next_of
      [\<lparr>type_col = ''invoice'', next_col = 100, prefix_col = ''INV-'', padding_col = 5\<rparr>]
      ''invoice'' = Some 100"
    by (simp add: next_of_def select_counter_def)
  from failed_allocate_rolls_back [OF h1] h2
  have "fst (take_next_number None
      [\<lparr>type_col = ''invoice'', next_col = 100, prefix_col = ''INV-'', padding_col = 5\<rparr>]
      ''invoice'') = Inr ''INV-00100''"
    by blast
  with h1 h2 h3 show ?thesis by simp
qed

section \<open>Configuration\<close>








section \<open>The course of a counter\<close>

lemma nondecreasing_refl: "nondecreasing tbl tbl t"
  by (simp add: nondecreasing_def split: option.splits)

lemma nondecreasing_trans:
  "nondecreasing a b t \<Longrightarrow> nondecreasing b c t \<Longrightarrow> nondecreasing a c t"
  by (auto simp: nondecreasing_def split: option.splits)

lemma take_next_number_next_of:
  assumes "take_next_number fault tbl t' = (Inr out, tbl')"
  shows "next_of tbl' t =
     (if t = t' then Some ((case next_of tbl t' of None \<Rightarrow> 1 | Some n \<Rightarrow> n) + 1)
      else next_of tbl t)"
proof (cases "select_counter tbl t'")
  case None
  from assms have "tbl' = update_next
      (tbl @ [\<lparr>type_col = t', next_col = 1, prefix_col = '''', padding_col = 0\<rparr>]) t' 2"
    unfolding take_next_number_absent [OF None] by (simp split: if_splits)
  then show ?thesis
    using None by (simp add: next_of_def select_counter_created [OF None])
next
  case (Some r)
  from assms have "tbl' = update_next tbl t' (next_col r + 1)"
    unfolding take_next_number_existing [OF Some] by (simp split: if_splits sum.splits)
  then show ?thesis
    using Some by (simp add: next_of_def select_counter_update_next)
qed

lemma nondecreasing_take_next_number:
  "nondecreasing tbl (snd (take_next_number fault tbl t')) t"
proof (cases "take_next_number fault tbl t'")
  case (Pair res tbl')
  show ?thesis
  proof (cases res)
    case (Inl e)
    with Pair have "tbl' = tbl" by (simp add: take_next_number_failed)
    with Pair show ?thesis by (simp add: nondecreasing_refl)
  next
    case (Inr out)
    with Pair have "take_next_number fault tbl t' = (Inr out, tbl')" by simp
    from take_next_number_next_of [OF this, of t] Pair show ?thesis
      by (simp add: nondecreasing_def split: option.splits if_splits)
  qed
qed

lemma set_counter_cases:
  "snd (set_counter fault tbl t' c) = tbl \<or>
   snd (set_counter fault tbl t' c) =
     upsert_counter tbl \<lparr>type_col = t', next_col = next_in c, prefix_col = prefix_in c,
        padding_col = padding_in c\<rparr>"
  by (simp add: set_counter_def close_session_def and_then_def execute_def Let_def)

lemma nondecreasing_set_counter_other:
  assumes "t' \<noteq> t"
  shows "nondecreasing tbl (snd (set_counter fault tbl t' c)) t"
proof -
  have "nondecreasing tbl
      (upsert_counter tbl \<lparr>type_col = t', next_col = next_in c, prefix_col = prefix_in c,
        padding_col = padding_in c\<rparr>) t"
    using assms
    by (simp add: nondecreasing_def next_of_def select_counter_upsert split: option.splits)
  with set_counter_cases [of fault tbl t' c] show ?thesis
    by (auto simp: nondecreasing_refl)
qed

lemma nondecreasing_serve:
  "\<not> configures t req \<Longrightarrow> nondecreasing tbl (serve tbl req) t"
  by (cases req)
     (simp_all add: nondecreasing_take_next_number nondecreasing_set_counter_other
        list_counters_def nondecreasing_refl)

lemma nondecreasing_serve_all:
  "\<forall>req \<in> set reqs. \<not> configures t req \<Longrightarrow> nondecreasing tbl (serve_all tbl reqs) t"
proof (induction reqs arbitrary: tbl)
  case Nil
  show ?case by (simp add: serve_all_def nondecreasing_refl)
next
  case (Cons req reqs)
  have "nondecreasing tbl (serve tbl req) t"
    using Cons.prems by (simp add: nondecreasing_serve)
  moreover have "nondecreasing (serve tbl req) (serve_all (serve tbl req) reqs) t"
    using Cons.prems by (intro Cons.IH) simp
  ultimately show ?case
    by (simp add: serve_all_def nondecreasing_trans)
qed

text \<open>
  C7, as stated, fails: \<^verbatim>\<open>set_counter\<close> stores the \<^verbatim>\<open>next\<close> it is given. A counter
  at 100 that is configured with \<^verbatim>\<open>next\<close> 5 stands at 5.
\<close>

theorem configure_lowers_next:
  "next_of [\<lparr>type_col = ''invoice'', next_col = 100, prefix_col = ''INV-'', padding_col = 5\<rparr>]
      ''invoice'' = Some 100 \<and>
   next_of (serve_all
      [\<lparr>type_col = ''invoice'', next_col = 100, prefix_col = ''INV-'', padding_col = 5\<rparr>]
      [Configure None ''invoice'' \<lparr>next_in = 5, prefix_in = ''INV-'', padding_in = 5\<rparr>])
      ''invoice'' = Some 5 \<and>
   \<not> nondecreasing
      [\<lparr>type_col = ''invoice'', next_col = 100, prefix_col = ''INV-'', padding_col = 5\<rparr>]
      (serve_all
        [\<lparr>type_col = ''invoice'', next_col = 100, prefix_col = ''INV-'', padding_col = 5\<rparr>]
        [Configure None ''invoice'' \<lparr>next_in = 5, prefix_in = ''INV-'', padding_in = 5\<rparr>])
      ''invoice''"
  by code_simp

text \<open>
  C7, amended. Under every sequence of requests that does not configure \<open>t\<close>
  (allocations of any type, whether they succeed or fail, listings, and configurations
  of other types), a stored counter \<open>t\<close> stays stored and its \<^verbatim>\<open>next\<close> does not
  decrease; and every successful allocation for \<open>t\<close> leaves \<^verbatim>\<open>next\<close> exactly one
  above the value it read (1 for a counter it created).
\<close>

theorem next_nondecreasing_without_configure:
  assumes "\<forall>req \<in> set reqs. \<not> configures t req"
  shows "nondecreasing tbl (serve_all tbl reqs) t \<and>
         (\<forall>fault out tbl'.
            take_next_number fault tbl t = (Inr out, tbl') \<longrightarrow>
            next_of tbl' t = Some ((case next_of tbl t of None \<Rightarrow> 1 | Some n \<Rightarrow> n) + 1))"
  using assms by (simp add: nondecreasing_serve_all take_next_number_next_of)

theorem next_nondecreasing_without_configure_witness:
  "list_all (\<lambda>req. \<not> configures ''invoice'' req)
     [Allocate None ''invoice'', ListCounters, Allocate (Some Commit) ''invoice'',
      Configure None ''quote'' \<lparr>next_in = 0, prefix_in = ''Q'', padding_in = 0\<rparr>,
      Allocate None ''invoice''] \<and>
   nondecreasing
     [\<lparr>type_col = ''invoice'', next_col = 100, prefix_col = ''INV-'', padding_col = 5\<rparr>]
     (serve_all
       [\<lparr>type_col = ''invoice'', next_col = 100, prefix_col = ''INV-'', padding_col = 5\<rparr>]
       [Allocate None ''invoice'', ListCounters, Allocate (Some Commit) ''invoice'',
        Configure None ''quote'' \<lparr>next_in = 0, prefix_in = ''Q'', padding_in = 0\<rparr>,
        Allocate None ''invoice''])
     ''invoice'' \<and>
   take_next_number None
     [\<lparr>type_col = ''invoice'', next_col = 100, prefix_col = ''INV-'', padding_col = 5\<rparr>]
     ''invoice'' =
     (Inr ''INV-00100'',
      [\<lparr>type_col = ''invoice'', next_col = 101, prefix_col = ''INV-'', padding_col = 5\<rparr>]) \<and>
   next_of [\<lparr>type_col = ''invoice'', next_col = 101, prefix_col = ''INV-'', padding_col = 5\<rparr>]
     ''invoice'' = Some (100 + 1)"
proof -
  have h1: "\<forall>req \<in> set [Allocate None ''invoice'', ListCounters,
        Allocate (Some Commit) ''invoice'',
        Configure None ''quote'' \<lparr>next_in = 0, prefix_in = ''Q'', padding_in = 0\<rparr>,
        Allocate None ''invoice'']. \<not> configures ''invoice'' req"
    by simp
  have h2: "take_next_number None
     [\<lparr>type_col = ''invoice'', next_col = 100, prefix_col = ''INV-'', padding_col = 5\<rparr>]
     ''invoice'' =
     (Inr ''INV-00100'',
      [\<lparr>type_col = ''invoice'', next_col = 101, prefix_col = ''INV-'', padding_col = 5\<rparr>])"
    by code_simp
  have h3: "next_of
     [\<lparr>type_col = ''invoice'', next_col = 100, prefix_col = ''INV-'', padding_col = 5\<rparr>]
     ''invoice'' = Some 100"
    by (simp add: next_of_def select_counter_def)
  note inst = next_nondecreasing_without_configure [OF h1,
      of "[\<lparr>type_col = ''invoice'', next_col = 100, prefix_col = ''INV-'', padding_col = 5\<rparr>]"]
  from inst have "nondecreasing
     [\<lparr>type_col = ''invoice'', next_col = 100, prefix_col = ''INV-'', padding_col = 5\<rparr>]
     (serve_all
       [\<lparr>type_col = ''invoice'', next_col = 100, prefix_col = ''INV-'', padding_col = 5\<rparr>]
       [Allocate None ''invoice'', ListCounters, Allocate (Some Commit) ''invoice'',
        Configure None ''quote'' \<lparr>next_in = 0, prefix_in = ''Q'', padding_in = 0\<rparr>,
        Allocate None ''invoice''])
     ''invoice''"
    by blast
  moreover from inst h2 have "next_of
     [\<lparr>type_col = ''invoice'', next_col = 101, prefix_col = ''INV-'', padding_col = 5\<rparr>]
     ''invoice'' =
     Some ((case next_of
       [\<lparr>type_col = ''invoice'', next_col = 100, prefix_col = ''INV-'', padding_col = 5\<rparr>]
       ''invoice'' of None \<Rightarrow> 1 | Some n \<Rightarrow> n) + 1)"
    by blast
  ultimately show ?thesis using h1 h2 h3 by simp
qed

section \<open>Independence of the key\<close>






section \<open>The database URL\<close>

lemma replace_first_prefix:
  "prefix old s \<Longrightarrow> replace_first old new s = new @ drop (length old) s"
  by (cases s) auto

lemma prefix_append_sep:
  assumes "sep \<notin> set p"
  shows "prefix p (s @ sep # rest) \<longleftrightarrow> prefix p s"
proof
  assume "prefix p (s @ sep # rest)"
  then consider "prefix p s" | us where "p = s @ us" "prefix us (sep # rest)"
    by (auto simp: prefix_append)
  then show "prefix p s"
  proof cases
    case 1
    then show ?thesis .
  next
    case 2
    with assms have "us = []" by (cases us) auto
    with 2 show ?thesis by simp
  qed
next
  assume "prefix p s"
  then show "prefix p (s @ sep # rest)" by (rule prefix_prefix)
qed

lemma use_psycopg_append:
  assumes "sep \<notin> set ''postgresql://''"
  shows "use_psycopg (s @ sep # rest) = use_psycopg s @ sep # rest"
proof (cases "prefix ''postgresql://'' s")
  case True
  then have "length ''postgresql://'' \<le> length s" by (rule prefix_length_le)
  with True show ?thesis
    using assms by (simp add: use_psycopg_def prefix_append_sep replace_first_prefix)
next
  case False
  then show ?thesis
    using assms by (simp add: use_psycopg_def prefix_append_sep)
qed

lemma sublist_sslmode_use_psycopg:
  "sublist ''sslmode='' (use_psycopg s) \<longleftrightarrow> sublist ''sslmode='' s"
proof (cases "prefix ''postgresql://'' s")
  case True
  then obtain rest where s: "s = ''postgresql://'' @ rest" by (auto simp: prefix_def)
  have "use_psycopg s = ''postgresql+psycopg://'' @ rest"
    using True by (simp add: use_psycopg_def replace_first_prefix s)
  then show ?thesis
    by (simp add: s sublist_Cons_right)
next
  case False
  then show ?thesis by (simp add: use_psycopg_def)
qed

text \<open>
  C9. The step under the comment \<^verbatim>\<open># Force SSL\<close> (lines 18-21) looks only for the
  text \<^verbatim>\<open>sslmode=\<close>. A connection string that sets \<^verbatim>\<open>sslmode=disable\<close> is kept as
  it is: nothing is appended, and the URL used by the server does not require
  encryption.
\<close>

theorem database_url_keeps_sslmode_disable:
  "database_url ''postgresql://u@h/db?sslmode=disable'' =
     Inr ''postgresql+psycopg://u@h/db?sslmode=disable'' \<and>
   \<not> sublist ''sslmode=require'' ''postgresql+psycopg://u@h/db?sslmode=disable''"
  by code_simp

text \<open>
  What the step does, case by case: where the text \<^verbatim>\<open>sslmode=\<close> does not occur,
  \<^verbatim>\<open>sslmode=require\<close> is appended, after \<^verbatim>\<open>&\<close> if the string contains \<^verbatim>\<open>?\<close> and
  after \<^verbatim>\<open>?\<close> otherwise; where it occurs, wherever that is, nothing is appended. Only
  the driver prefix is rewritten besides.
\<close>

lemma database_url_by_cases:
  assumes "raw_url \<noteq> ''''"
  shows "(\<not> sublist ''sslmode='' raw_url \<longrightarrow>
            database_url raw_url =
              Inr (use_psycopg raw_url @ (if sublist ''?'' raw_url then ''&'' else ''?'')
                     @ ''sslmode=require'')) \<and>
         (sublist ''sslmode='' raw_url \<longrightarrow> database_url raw_url = Inr (use_psycopg raw_url)) \<and>
         (\<exists>url. database_url raw_url = Inr url \<and> sublist ''sslmode='' url)"
proof -
  have absent: "database_url raw_url =
              Inr (use_psycopg raw_url @ (if sublist ''?'' raw_url then ''&'' else ''?'')
                     @ ''sslmode=require'')"
    if "\<not> sublist ''sslmode='' raw_url"
    using that assms by (simp add: database_url_def force_ssl_def use_psycopg_append)
  have present: "database_url raw_url = Inr (use_psycopg raw_url)"
    if "sublist ''sslmode='' raw_url"
    using that assms by (simp add: database_url_def force_ssl_def)
  have "sublist ''sslmode='' (use_psycopg (force_ssl raw_url))"
  proof (cases "sublist ''sslmode='' raw_url")
    case True
    then show ?thesis by (simp add: force_ssl_def sublist_sslmode_use_psycopg)
  next
    case False
    have "sublist ''sslmode='' ((raw_url @ (if sublist ''?'' raw_url then ''&'' else ''?''))
             @ ''sslmode='' @ ''require'')"
      by (rule sublist_appendI)
    with False show ?thesis
      by (simp add: force_ssl_def sublist_sslmode_use_psycopg)
  qed
  with assms have "\<exists>url. database_url raw_url = Inr url \<and> sublist ''sslmode='' url"
    by (simp add: database_url_def)
  with absent present show ?thesis by blast
qed

text \<open>
  Examples: a string without the parameter, a string that brings its own setting, and
  a string in which the text \<^verbatim>\<open>sslmode=\<close> occurs in the password only, so that no
  parameter is set and none is appended.
\<close>

lemma database_url_examples:
  "database_url ''postgresql://u@h/db?a=b'' =
     Inr ''postgresql+psycopg://u@h/db?a=b&sslmode=require''"
  "database_url ''postgresql://u@h/db?sslmode=verify-full'' =
     Inr ''postgresql+psycopg://u@h/db?sslmode=verify-full''"
  "database_url ''postgresql://u:sslmode=@h/db'' =
     Inr ''postgresql+psycopg://u:sslmode=@h/db''"
  by code_simp+

section \<open>Clients with a null email\<close>

text \<open>
  C8. A client sent twice with the same name, \<^verbatim>\<open>email\<close> \<^verbatim>\<open>null\<close> and a different
  address: the first call stores the email as \<^verbatim>\<open>""\<close>; the second call looks the
  row up with \<^verbatim>\<open>email = NULL\<close>, finds nothing, inserts the same name and \<^verbatim>\<open>""\<close>
  again, and is answered with status 400. The stored address stays the first one.
\<close>
theorem upsert_client_null_email_rejected:
  "upsert_client \<lparr>name_in = ''A'', address_in = Some ''x'', email_in = None, phone_in = None\<rparr>
      \<lparr>rows = [], id_seq = 1\<rparr> =
     (Inr \<lparr>id_out = 1, name_out = ''A'', address_out = ''x'', email_out = '''',
           phone_out = ''''\<rparr>,
      \<lparr>rows = [\<lparr>id_col = 1, name_col = ''A'', address_col = Some ''x'',
                 email_col = Some '''', phone_col = Some ''''\<rparr>], id_seq = 2\<rparr>) \<and>
   upsert_client \<lparr>name_in = ''A'', address_in = Some ''y'', email_in = None, phone_in = None\<rparr>
      \<lparr>rows = [\<lparr>id_col = 1, name_col = ''A'', address_col = Some ''x'',
                 email_col = Some '''', phone_col = Some ''''\<rparr>], id_seq = 2\<rparr> =
     (Inl (HTTPException 400),
      \<lparr>rows = [\<lparr>id_col = 1, name_col = ''A'', address_col = Some ''x'',
                 email_col = Some '''', phone_col = Some ''''\<rparr>], id_seq = 3\<rparr>)"
  by code_simp

text \<open>
  With an email that is a string the second call does update in place: it answers with
  the id of the first call and the new address, and stores no further row
  (\<open>upsert_client_twice_updates_in_place\<close>).
\<close>

lemma select_client_id_update:
  "select_client_id (update_client rs cid a ph) n e = select_client_id rs n e"
  by (induction rs) (auto simp: select_client_id_def update_client_def)

lemma fetch_client_update:
  "fetch_client (update_client rs cid a ph) cid =
     (case find (\<lambda>r. id_col r = cid) rs of
        None \<Rightarrow> Inl TypeError
      | Some r \<Rightarrow> Inr \<lparr>id_out = cid, name_out = name_col r, address_out = a,
                       email_out = or_empty (email_col r), phone_out = ph\<rparr>)"
  by (induction rs) (auto simp: fetch_client_def update_client_def or_empty_def)

lemma select_client_id_found:
  "select_client_id rs n e = Some cid \<Longrightarrow> find (\<lambda>r. id_col r = cid) rs \<noteq> None"
  by (induction rs) (auto simp: select_client_id_def split: if_splits)

lemma upsert_client_found:
  assumes "select_client_id (rows db) (name_in c) (email_in c) = Some cid"
  shows "\<exists>out. upsert_client c db =
           (Inr out, db\<lparr>rows := update_client (rows db) cid (or_empty (address_in c))
                                  (or_empty (phone_in c))\<rparr>) \<and>
         id_out out = cid \<and> address_out out = or_empty (address_in c)"
proof -
  from select_client_id_found [OF assms]
  obtain r where "find (\<lambda>r. id_col r = cid) (rows db) = Some r" by auto
  then show ?thesis
    using assms
    by (simp add: upsert_client_def upsert_client_try_def fetch_client_update Let_def)
qed

lemma select_client_id_append:
  "select_client_id (rs @ [r]) n e =
     (case select_client_id rs n e of
        Some cid \<Rightarrow> Some cid
      | None \<Rightarrow> if name_col r = n \<and> sql_eq (email_col r) e then Some (id_col r) else None)"
  by (induction rs) (auto simp: select_client_id_def)

lemma upsert_client_stores_key:
  assumes "email_in c = Some e" and "upsert_client c db = (Inr out, db1)"
  shows "select_client_id (rows db1) (name_in c) (Some e) = Some (id_out out)"
proof (cases "select_client_id (rows db) (name_in c) (Some e)")
  case (Some cid)
  with assms(1) have "select_client_id (rows db) (name_in c) (email_in c) = Some cid" by simp
  from upsert_client_found [OF this] assms(2) Some show ?thesis
    by (auto simp: select_client_id_update)
next
  case None
  have fetch: "fetch_client rs cid = Inr out \<Longrightarrow> id_out out = cid" for rs cid
    by (auto simp: fetch_client_def split: option.splits dest: find_Some_iff [THEN iffD1])
  from assms None show ?thesis
    by (auto simp: upsert_client_def upsert_client_try_def insert_client_def Let_def
          select_client_id_append sql_eq_def or_empty_def
          split: sum.splits error.splits dest: fetch)
qed

lemma upsert_client_twice_updates_in_place:
  assumes "email_in c1 = Some e" and "email_in c2 = Some e" and "name_in c2 = name_in c1"
    and "upsert_client c1 db = (Inr out1, db1)"
  shows "\<exists>out2 db2. upsert_client c2 db1 = (Inr out2, db2) \<and>
           id_out out2 = id_out out1 \<and> address_out out2 = or_empty (address_in c2) \<and>
           length (rows db2) = length (rows db1) \<and> id_seq db2 = id_seq db1"
proof -
  from upsert_client_stores_key [OF assms(1) assms(4)] assms(2,3)
  have "select_client_id (rows db1) (name_in c2) (email_in c2) = Some (id_out out1)" by simp
  from upsert_client_found [OF this] show ?thesis
    by (auto simp: update_client_def)
qed

end
